theory Spec2Isabelle
  imports Main
begin

section \<open>Data model of the order-submission parser\<close>

text \<open>
  The enum \<open>OrderType\<close> of the SDK, as \<open>fromPostRequest\<close> switches on it: the four
  cases Dutch, Limit, Dutch_V2 and Relay. An absent \<open>orderType\<close> (\<open>undefined\<close>) is
  \<open>None\<close> of \<open>OrderType option\<close>.
\<close>

datatype OrderType = Dutch | Limit | Dutch_V2 | Relay

text \<open>
  \<open>PostOrderRequestBody\<close>: the fields that \<open>fromPostRequest\<close> reads from the body.
  \<open>chainId\<close> is a JavaScript number holding an integer; it is only passed on.
\<close>

record PostOrderRequestBody =
  encodedOrder :: string
  signature :: string
  chainId :: int
  orderType :: "OrderType option"
  quoteId :: "string option"
  requestId :: "string option"

text \<open>
  The model classes, as tagged values holding the constructor arguments in the order the
  parser passes them. \<open>'o\<close> is the type of the SDK's decoded order objects (the casts
  \<open>order as SDKDutchOrder\<close> do nothing at run time). The two \<open>undefined\<close> arguments of
  \<open>new DutchV2Order(...)\<close> are kept as \<open>None\<close>.
\<close>

datatype 'o Order =
    LimitOrder 'o string int "string option"
  | DutchV1Order 'o string int "string option"
  | DutchV2Order 'o string int "unit option" "unit option" "string option" "string option"
  | RelayOrder 'o string int

text \<open>
  Everything the parser can throw: an exception \<open>'e\<close> coming out of an SDK call,
  \<open>new UnexpectedOrderTypeError(t)\<close>, or a plain \<open>new Error(message)\<close>.
\<close>

datatype 'e error =
    SdkError 'e
  | UnexpectedOrderTypeError OrderType
  | Error string

text \<open>
  The logger: every call appends one entry (level, message, context object). The context
  is either \<open>{err, encodedOrder, chainId, signature}\<close>,
  \<open>{orderReactor, customReactorAddress}\<close> or absent.
\<close>

datatype level = ERROR | WARN

datatype 'e log_ctx =
    ErrCtx "'e error" string int string
  | ReactorCtx string string
  | NoCtx

type_synonym 'e log_entry = "level \<times> string \<times> 'e log_ctx"

text \<open>
  The calls into \<open>@uniswap/uniswapx-sdk\<close>, which is not part of this repository, are
  parameters. Each may throw (\<open>Inl\<close>) or return (\<open>Inr\<close>). \<open>info_reactor\<close> reads
  \<open>order.info.reactor\<close>.
\<close>

record ('e, 'o) sdk =
  uniswapXParser_parseOrder :: "string \<Rightarrow> int \<Rightarrow> 'e + 'o"
  uniswapXParser_getOrderType :: "'o \<Rightarrow> 'e + OrderType"
  relayParser_parseOrder :: "string \<Rightarrow> int \<Rightarrow> 'e + 'o"
  relayParser_getOrderType :: "'o \<Rightarrow> 'e + OrderType"
  CosignedV2DutchOrder_parse :: "string \<Rightarrow> int \<Rightarrow> 'e + 'o"
  SDKDutchOrder_parse :: "string \<Rightarrow> int \<Rightarrow> 'e + 'o"
  info_reactor :: "'o \<Rightarrow> string"

text \<open>
  Modelled from the spec: the getter \<open>orderType\<close> of the model classes
  (\<open>../../models\<close>, not among the sources), which \<open>tryParseDutchV1Order\<close> and
  \<open>tryParseLimitOrder\<close> compare with the expected type. The canonical order is a
  tagged union of the four variants, each tagged with its own type.
\<close>

fun order_orderType :: "'o Order \<Rightarrow> OrderType" where
  "order_orderType (LimitOrder _ _ _ _) = Limit"
| "order_orderType (DutchV1Order _ _ _ _) = Dutch"
| "order_orderType (DutchV2Order _ _ _ _ _ _ _) = Dutch_V2"
| "order_orderType (RelayOrder _ _ _) = Relay"

text \<open>What a constructed model object holds: exactly the arguments it was built from.\<close>

fun order_inner :: "'o Order \<Rightarrow> 'o" where
  "order_inner (LimitOrder ord _ _ _) = ord"
| "order_inner (DutchV1Order ord _ _ _) = ord"
| "order_inner (DutchV2Order ord _ _ _ _ _ _) = ord"
| "order_inner (RelayOrder ord _ _) = ord"

fun order_signature :: "'o Order \<Rightarrow> string" where
  "order_signature (LimitOrder _ sg _ _) = sg"
| "order_signature (DutchV1Order _ sg _ _) = sg"
| "order_signature (DutchV2Order _ sg _ _ _ _ _) = sg"
| "order_signature (RelayOrder _ sg _) = sg"

fun order_chainId :: "'o Order \<Rightarrow> int" where
  "order_chainId (LimitOrder _ _ c _) = c"
| "order_chainId (DutchV1Order _ _ c _) = c"
| "order_chainId (DutchV2Order _ _ c _ _ _ _) = c"
| "order_chainId (RelayOrder _ _ c) = c"

fun order_quoteId :: "'o Order \<Rightarrow> string option" where
  "order_quoteId (LimitOrder _ _ _ q) = q"
| "order_quoteId (DutchV1Order _ _ _ q) = q"
| "order_quoteId (DutchV2Order _ _ _ _ _ q _) = q"
| "order_quoteId (RelayOrder _ _ _) = None"

fun order_requestId :: "'o Order \<Rightarrow> string option" where
  "order_requestId (LimitOrder _ _ _ _) = None"
| "order_requestId (DutchV1Order _ _ _ _) = None"
| "order_requestId (DutchV2Order _ _ _ _ _ _ r) = r"
| "order_requestId (RelayOrder _ _ _) = None"

section \<open>Strings\<close>

text \<open>
  \<open>String.prototype.toLowerCase\<close> on the strings compared here, reactor addresses
  (\<open>0x\<close> and hexadecimal digits): the letters \<open>A\<close> to \<open>Z\<close> go to \<open>a\<close> to \<open>z\<close>,
  every other character of the 7-bit range stays.
\<close>

definition lower_char :: "char \<Rightarrow> char" where
  "lower_char c =
     (let n = (of_char c :: nat) in if 65 \<le> n \<and> n \<le> 90 then char_of (n + 32) else c)"

definition toLowerCase :: "string \<Rightarrow> string" where
  "toLowerCase s = map lower_char s"

section \<open>PostOrderBodyParser\<close>

type_synonym ('e, 'o) outcome = "('e error + 'o Order) \<times> 'e log_entry list"

text \<open>
  The body of a \<open>try\<close> block whose \<open>catch\<close> logs an error with the submission context
  and throws the same exception again.
\<close>

definition log_and_rethrow ::
  "string \<Rightarrow> string \<Rightarrow> int \<Rightarrow> string \<Rightarrow> ('e, 'o) outcome \<Rightarrow> ('e, 'o) outcome" where
  "log_and_rethrow msg encoded chain sg r =
     (case r of
        (Inr ord, logs) \<Rightarrow> (Inr ord, logs)
      | (Inl err, logs) \<Rightarrow> (Inl err, logs @ [(ERROR, msg, ErrCtx err encoded chain sg)]))"

text \<open>\<open>tryParseRelayOrder\<close>.\<close>

definition tryParseRelayOrder ::
  "('e, 'o) sdk \<Rightarrow> string \<Rightarrow> string \<Rightarrow> int \<Rightarrow> ('e, 'o) outcome" where
  "tryParseRelayOrder s encoded sg chain =
     log_and_rethrow ''Unable to parse Relay order'' encoded chain sg
       (case relayParser_parseOrder s encoded chain of
          Inl ex \<Rightarrow> (Inl (SdkError ex), [])
        | Inr ord \<Rightarrow>
            (case relayParser_getOrderType s ord of
               Inl ex \<Rightarrow> (Inl (SdkError ex), [])
             | Inr t \<Rightarrow>
                 if t = Relay then (Inr (RelayOrder ord sg chain), [])
                 else (Inl (UnexpectedOrderTypeError t), [])))"

text \<open>\<open>tryParseDutchV2Order\<close>.\<close>

definition tryParseDutchV2Order ::
  "('e, 'o) sdk \<Rightarrow> string \<Rightarrow> string \<Rightarrow> int \<Rightarrow> string option \<Rightarrow> string option
     \<Rightarrow> ('e, 'o) outcome" where
  "tryParseDutchV2Order s encoded sg chain qid rid =
     log_and_rethrow ''Unable to parse DutchV2 order'' encoded chain sg
       (case CosignedV2DutchOrder_parse s encoded chain of
          Inl ex \<Rightarrow> (Inl (SdkError ex), [])
        | Inr ord \<Rightarrow> (Inr (DutchV2Order ord sg chain None None qid rid), []))"

text \<open>
  \<open>tryParseDutchOrder\<close>, the outer \<open>try\<close> block: the generic decoder and the type it
  infers. It logs nothing.
\<close>

definition tryParseDutchOrder_try ::
  "('e, 'o) sdk \<Rightarrow> string \<Rightarrow> string \<Rightarrow> int \<Rightarrow> string option \<Rightarrow> 'e error + 'o Order" where
  "tryParseDutchOrder_try s encoded sg chain qid =
     (case uniswapXParser_parseOrder s encoded chain of
        Inl ex \<Rightarrow> Inl (SdkError ex)
      | Inr ord \<Rightarrow>
          (case uniswapXParser_getOrderType s ord of
             Inl ex \<Rightarrow> Inl (SdkError ex)
           | Inr t \<Rightarrow>
               if t = Limit then Inr (LimitOrder ord sg chain qid)
               else if t = Dutch then Inr (DutchV1Order ord sg chain qid)
               else Inl (UnexpectedOrderTypeError t)))"

text \<open>
  \<open>tryParseDutchOrder\<close>, the \<open>catch\<close> of the outer block, entered with the exception
  \<open>err\<close>: the inner \<open>try\<close> with the custom reactor, and the inner \<open>catch\<close>, whose own
  \<open>err\<close> is the one it logs and throws. \<open>env\<close> is
  \<open>process.env.CUSTOM_REACTOR_ADDRESS\<close>; \<open>!customReactorAddress\<close> holds when it is
  undefined or the empty string.
\<close>

definition tryParseDutchOrder_catch ::
  "('e, 'o) sdk \<Rightarrow> string option \<Rightarrow> 'e error \<Rightarrow> string \<Rightarrow> string \<Rightarrow> int \<Rightarrow> string option
     \<Rightarrow> ('e, 'o) outcome" where
  "tryParseDutchOrder_catch s env err encoded sg chain qid =
     log_and_rethrow ''Unable to parse legacy Dutch order'' encoded chain sg
       (let l0 = [(WARN,
                   ''Unable to parse legacy Dutch order - trying to parse with custom reactor'',
                   ErrCtx err encoded chain sg)] in
        case SDKDutchOrder_parse s encoded chain of
          Inl ex \<Rightarrow> (Inl (SdkError ex), l0)
        | Inr ord \<Rightarrow>
            (case env of
               None \<Rightarrow>
                 (Inl (Error ''CUSTOM_REACTOR_ADDRESS is not set''),
                  l0 @ [(WARN, ''CUSTOM_REACTOR_ADDRESS is not set'', NoCtx)])
             | Some customReactorAddress \<Rightarrow>
                 if customReactorAddress = [] then
                   (Inl (Error ''CUSTOM_REACTOR_ADDRESS is not set''),
                    l0 @ [(WARN, ''CUSTOM_REACTOR_ADDRESS is not set'', NoCtx)])
                 else if toLowerCase (info_reactor s ord) \<noteq> toLowerCase customReactorAddress then
                   (Inl (Error ''Invalid reactor address''),
                    l0 @ [(WARN, ''Invalid reactor address'',
                           ReactorCtx (info_reactor s ord) customReactorAddress)])
                 else (Inr (DutchV1Order ord sg chain qid), l0)))"

text \<open>\<open>tryParseDutchOrder\<close>.\<close>

definition tryParseDutchOrder ::
  "('e, 'o) sdk \<Rightarrow> string option \<Rightarrow> string \<Rightarrow> string \<Rightarrow> int \<Rightarrow> string option
     \<Rightarrow> ('e, 'o) outcome" where
  "tryParseDutchOrder s env encoded sg chain qid =
     (case tryParseDutchOrder_try s encoded sg chain qid of
        Inr ord \<Rightarrow> (Inr ord, [])
      | Inl err \<Rightarrow> tryParseDutchOrder_catch s env err encoded sg chain qid)"

text \<open>\<open>tryParseDutchV1Order\<close>.\<close>

definition tryParseDutchV1Order ::
  "('e, 'o) sdk \<Rightarrow> string option \<Rightarrow> string \<Rightarrow> string \<Rightarrow> int \<Rightarrow> string option
     \<Rightarrow> ('e, 'o) outcome" where
  "tryParseDutchV1Order s env encoded sg chain qid =
     log_and_rethrow ''Unable to parse DutchV1 order'' encoded chain sg
       (case tryParseDutchOrder s env encoded sg chain qid of
          (Inl err, logs) \<Rightarrow> (Inl err, logs)
        | (Inr ord, logs) \<Rightarrow>
            if order_orderType ord = Dutch then (Inr ord, logs)
            else (Inl (UnexpectedOrderTypeError (order_orderType ord)), logs))"

text \<open>\<open>tryParseLimitOrder\<close>.\<close>

definition tryParseLimitOrder ::
  "('e, 'o) sdk \<Rightarrow> string option \<Rightarrow> string \<Rightarrow> string \<Rightarrow> int \<Rightarrow> string option
     \<Rightarrow> ('e, 'o) outcome" where
  "tryParseLimitOrder s env encoded sg chain qid =
     log_and_rethrow ''Unable to parse Limit order'' encoded chain sg
       (case tryParseDutchOrder s env encoded sg chain qid of
          (Inl err, logs) \<Rightarrow> (Inl err, logs)
        | (Inr ord, logs) \<Rightarrow>
            if order_orderType ord = Limit then (Inr ord, logs)
            else (Inl (UnexpectedOrderTypeError (order_orderType ord)), logs))"

text \<open>\<open>fromPostRequest\<close>: the dispatch on the declared order type.\<close>

definition fromPostRequest ::
  "('e, 'o) sdk \<Rightarrow> string option \<Rightarrow> PostOrderRequestBody \<Rightarrow> ('e, 'o) outcome" where
  "fromPostRequest s env body =
     (case orderType body of
        Some Dutch \<Rightarrow>
          tryParseDutchV1Order s env (encodedOrder body) (signature body) (chainId body)
            (quoteId body)
      | Some Limit \<Rightarrow>
          tryParseLimitOrder s env (encodedOrder body) (signature body) (chainId body)
            (quoteId body)
      | Some Dutch_V2 \<Rightarrow>
          tryParseDutchV2Order s (encodedOrder body) (signature body) (chainId body)
            (quoteId body) (requestId body)
      | Some Relay \<Rightarrow>
          tryParseRelayOrder s (encodedOrder body) (signature body) (chainId body)
      | None \<Rightarrow>
          tryParseDutchOrder s env (encodedOrder body) (signature body) (chainId body)
            (quoteId body))"

section \<open>Observing the fallback\<close>

text \<open>
  The first statement of the outer \<open>catch\<close> of \<open>tryParseDutchOrder\<close> is the warning
  that announces the custom-reactor attempt, and no other place logs that message: the
  fallback was attempted exactly when the log holds it.
\<close>

definition fallback_attempted :: "'e log_entry list \<Rightarrow> bool" where
  "fallback_attempted logs =
     list_ex (\<lambda>(lv, msg, ctx). lv = WARN \<and>
        msg = ''Unable to parse legacy Dutch order - trying to parse with custom reactor'') logs"

section \<open>Case-insensitive equality\<close>

text \<open>
  What the specification means by two addresses matching case-insensitively, stated on the
  characters themselves and without \<open>toLowerCase\<close>: the strings have the same length
  and, position by position, the characters are equal or are the upper-case and lower-case
  form of one letter \<open>A\<close> to \<open>Z\<close> (codes 65 to 90, the lower-case form 32 above).
  The program's comparison is measured against this.
\<close>

definition is_upper :: "char \<Rightarrow> bool" where
  "is_upper c = (65 \<le> (of_char c :: nat) \<and> (of_char c :: nat) \<le> 90)"

definition same_letter :: "char \<Rightarrow> char \<Rightarrow> bool" where
  "same_letter c d =
     (c = d
      \<or> (is_upper c \<and> (of_char d :: nat) = of_char c + 32)
      \<or> (is_upper d \<and> (of_char c :: nat) = of_char d + 32))"

definition eq_ignoring_case :: "string \<Rightarrow> string \<Rightarrow> bool" where
  "eq_ignoring_case a b = list_all2 same_letter a b"

section \<open>Example decoders and submissions\<close>

text \<open>
  A small instance of the SDK on which the parser can be run: decoded orders are triples
  (reactor, start amount, end amount). The generic parser knows the payloads \<open>0xA\<close> (a
  decaying order) and \<open>0xB\<close> (a flat one) and rejects \<open>0xC\<close>, whose reactor is a
  custom one; the base schema decodes all three. The relay schema decodes \<open>0xD\<close>, and
  also \<open>0xA\<close>, whose reactor is not the relay reactor. The V2 schema decodes \<open>0xE\<close>.
\<close>

type_synonym toy_order = "string \<times> int \<times> int"

definition toy_sdk :: "(string, toy_order) sdk" where
  "toy_sdk = \<lparr>
     uniswapXParser_parseOrder = (\<lambda>enc chain.
       if enc = ''0xA'' then Inr (''0xReactor'', 10, 5)
       else if enc = ''0xB'' then Inr (''0xReactor'', 10, 10)
       else Inl ''generic decode failed''),
     uniswapXParser_getOrderType = (\<lambda>(r, a, b). Inr (if a = b then Limit else Dutch)),
     relayParser_parseOrder = (\<lambda>enc chain.
       if enc = ''0xD'' then Inr (''0xRelay'', 3, 3)
       else if enc = ''0xA'' then Inr (''0xReactor'', 10, 5)
       else Inl ''relay decode failed''),
     relayParser_getOrderType = (\<lambda>(r, a, b). Inr (if r = ''0xRelay'' then Relay else Dutch)),
     CosignedV2DutchOrder_parse = (\<lambda>enc chain.
       if enc = ''0xE'' then Inr (''0xV2'', 8, 4) else Inl ''v2 decode failed''),
     SDKDutchOrder_parse = (\<lambda>enc chain.
       if enc = ''0xA'' then Inr (''0xReactor'', 10, 5)
       else if enc = ''0xB'' then Inr (''0xReactor'', 10, 10)
       else if enc = ''0xC'' then Inr (''0xCuStOm'', 7, 7)
       else Inl ''base decode failed''),
     info_reactor = fst \<rparr>"

text \<open>The same decoders, except that the generic parser fails on everything, differently.\<close>

definition toy_sdk_other_generic :: "(string, toy_order) sdk" where
  "toy_sdk_other_generic =
     toy_sdk\<lparr>uniswapXParser_parseOrder := \<lambda>enc chain. Inl ''another generic failure''\<rparr>"

definition submission :: "string \<Rightarrow> OrderType option \<Rightarrow> PostOrderRequestBody" where
  "submission enc t = \<lparr> encodedOrder = enc, signature = ''0xsig'', chainId = 1, orderType = t,
     quoteId = Some ''q-1'', requestId = Some ''r-1'' \<rparr>"

section \<open>Auxiliary facts\<close>

lemmas parser_defs =
  fromPostRequest_def tryParseDutchV1Order_def tryParseLimitOrder_def tryParseDutchOrder_def
  tryParseDutchOrder_catch_def tryParseDutchOrder_try_def tryParseDutchV2Order_def
  tryParseRelayOrder_def log_and_rethrow_def

lemma toLowerCase_custom: "toLowerCase ''0xCuStOm'' = ''0xcustom''"
  by code_simp

lemma toLowerCase_other: "toLowerCase ''0xother'' = ''0xother''"
  by code_simp

lemma toLowerCase_lower: "toLowerCase ''0xcustom'' = ''0xcustom''"
  by code_simp

text \<open>
  \<open>toLowerCase\<close> identifies exactly the strings that are equal up to the case of
  their letters.
\<close>

lemma lower_char_upper:
  "is_upper c \<Longrightarrow> (of_char (lower_char c) :: nat) = of_char c + 32"
  by (simp add: lower_char_def is_upper_def Let_def)

lemma lower_char_other: "\<not> is_upper c \<Longrightarrow> lower_char c = c"
  by (auto simp: lower_char_def is_upper_def Let_def)

lemma of_char_nat_eq: "((of_char c :: nat) = of_char d) = (c = d)"
  by simp

lemma lower_char_eq_iff: "lower_char c = lower_char d \<longleftrightarrow> same_letter c d"
proof -
  have "lower_char c = lower_char d
      \<longleftrightarrow> (of_char (lower_char c) :: nat) = of_char (lower_char d)"
    by (simp only: of_char_nat_eq)
  also have "\<dots> \<longleftrightarrow> same_letter c d"
  proof (cases "is_upper c"; cases "is_upper d")
    assume u: "is_upper c" "is_upper d"
    then show ?thesis
      by (auto simp: lower_char_upper same_letter_def is_upper_def)
  next
    assume u: "is_upper c" "\<not> is_upper d"
    then show ?thesis
      by (auto simp: lower_char_upper lower_char_other same_letter_def is_upper_def)
  next
    assume u: "\<not> is_upper c" "is_upper d"
    then show ?thesis
      by (auto simp: lower_char_upper lower_char_other same_letter_def is_upper_def)
  next
    assume u: "\<not> is_upper c" "\<not> is_upper d"
    then show ?thesis by (auto simp: lower_char_other same_letter_def)
  qed
  finally show ?thesis .
qed

lemma toLowerCase_eq_iff: "toLowerCase a = toLowerCase b \<longleftrightarrow> eq_ignoring_case a b"
proof -
  have "toLowerCase a = toLowerCase b
      \<longleftrightarrow> list_all2 (=) (map lower_char a) (map lower_char b)"
    by (simp add: toLowerCase_def list_all2_eq)
  also have "\<dots> \<longleftrightarrow> list_all2 (\<lambda>c d. lower_char c = lower_char d) a b"
    by (simp add: list_all2_map1 list_all2_map2)
  also have "\<dots> \<longleftrightarrow> list_all2 same_letter a b"
    by (simp add: lower_char_eq_iff)
  finally show ?thesis by (simp add: eq_ignoring_case_def)
qed

lemma eq_custom: "eq_ignoring_case ''0xCuStOm'' ''0xCUSTOM''"
  by code_simp

lemma neq_custom: "\<not> eq_ignoring_case ''0xCuStOm'' ''0xcustoN''"
  by code_simp

lemma neq_other: "\<not> eq_ignoring_case ''0xCuStOm'' ''0xother''"
  by code_simp

text \<open>The outer \<open>try\<close> block throws SDK exceptions and \<open>UnexpectedOrderTypeError\<close> only.\<close>

lemma try_fails_cases:
  "tryParseDutchOrder_try s encoded sg chain qid = Inl e \<Longrightarrow>
     (\<exists>ex. e = SdkError ex) \<or> (\<exists>t. e = UnexpectedOrderTypeError t)"
  by (auto simp: tryParseDutchOrder_try_def split: sum.splits if_splits)

text \<open>Without a declared type, \<open>fromPostRequest\<close> is \<open>tryParseDutchOrder\<close>.\<close>

lemma fromPostRequest_absent:
  "orderType body = None \<Longrightarrow>
     fromPostRequest s env body =
       tryParseDutchOrder s env (encodedOrder body) (signature body) (chainId body) (quoteId body)"
  by (simp add: fromPostRequest_def)

section \<open>Which failure reaches the caller when both decoders fail\<close>

text \<open>
  C1, as the specification states it: with \<open>orderType\<close> absent, when the generic decode
  and the fallback both fail, the caller gets the generic decoder's failure. The code does
  otherwise: the inner \<open>catch\<close> binds its own \<open>err\<close> and throws that one. On the payload
  \<open>0xZ\<close>, which neither decoder accepts, the caller gets the base-schema failure.
\<close>

theorem both_fail_reports_generic_counterexample:
  "orderType (submission ''0xZ'' None) = None
   \<and> tryParseDutchOrder_try toy_sdk ''0xZ'' ''0xsig'' 1 (Some ''q-1'')
       = Inl (SdkError ''generic decode failed'')
   \<and> fst (tryParseDutchOrder_catch toy_sdk None (SdkError ''generic decode failed'')
            ''0xZ'' ''0xsig'' 1 (Some ''q-1'')) = Inl (SdkError ''base decode failed'')
   \<and> fst (fromPostRequest toy_sdk None (submission ''0xZ'' None))
       = Inl (SdkError ''base decode failed'')
   \<and> fst (fromPostRequest toy_sdk None (submission ''0xZ'' None))
       \<noteq> Inl (SdkError ''generic decode failed'')"
  by (simp add: parser_defs toy_sdk_def submission_def)

text \<open>
  C1, amended: with \<open>orderType\<close> absent and the generic stage failing with \<open>e1\<close>, a
  failing fallback reports its own failure to the caller: the exception of the base-schema
  decoder when the re-decode throws, \<open>Error('CUSTOM_REACTOR_ADDRESS is not set')\<close> when
  the re-decode succeeds and no address is configured, \<open>Error('Invalid reactor address')\<close>
  when the decoded reactor does not match the configured address. The generic failure
  \<open>e1\<close> is in the first log entry, the warning, and nowhere else: the last log entry
  records the thrown failure, and the result and every log entry after the first are the
  same under any other generic decoder that fails, whatever its failure.
\<close>

theorem both_fail_reports_fallback:
  assumes "orderType body = None"
    and "tryParseDutchOrder_try s (encodedOrder body) (signature body) (chainId body)
           (quoteId body) = Inl e1"
  shows "(\<forall>ex. SDKDutchOrder_parse s (encodedOrder body) (chainId body) = Inl ex \<longrightarrow>
            fst (fromPostRequest s env body) = Inl (SdkError ex))
     \<and> (\<forall>ord. SDKDutchOrder_parse s (encodedOrder body) (chainId body) = Inr ord
            \<and> (env = None \<or> env = Some []) \<longrightarrow>
            fst (fromPostRequest s env body) = Inl (Error ''CUSTOM_REACTOR_ADDRESS is not set''))
     \<and> (\<forall>ord addr. SDKDutchOrder_parse s (encodedOrder body) (chainId body) = Inr ord
            \<and> env = Some addr \<and> addr \<noteq> []
            \<and> \<not> eq_ignoring_case (info_reactor s ord) addr \<longrightarrow>
            fst (fromPostRequest s env body) = Inl (Error ''Invalid reactor address''))
     \<and> (\<forall>e2. fst (fromPostRequest s env body) = Inl e2 \<longrightarrow>
            hd (snd (fromPostRequest s env body))
              = (WARN,
                 ''Unable to parse legacy Dutch order - trying to parse with custom reactor'',
                 ErrCtx e1 (encodedOrder body) (chainId body) (signature body))
            \<and> last (snd (fromPostRequest s env body))
              = (ERROR, ''Unable to parse legacy Dutch order'',
                 ErrCtx e2 (encodedOrder body) (chainId body) (signature body)))
     \<and> (\<forall>s'. SDKDutchOrder_parse s' = SDKDutchOrder_parse s \<and> info_reactor s' = info_reactor s
            \<and> isl (tryParseDutchOrder_try s' (encodedOrder body) (signature body)
                     (chainId body) (quoteId body)) \<longrightarrow>
            fst (fromPostRequest s' env body) = fst (fromPostRequest s env body)
            \<and> tl (snd (fromPostRequest s' env body)) = tl (snd (fromPostRequest s env body)))"
proof (intro conjI allI impI)
  fix ex assume "SDKDutchOrder_parse s (encodedOrder body) (chainId body) = Inl ex"
  then show "fst (fromPostRequest s env body) = Inl (SdkError ex)"
    using assms
    by (simp add: fromPostRequest_def tryParseDutchOrder_def tryParseDutchOrder_catch_def
        log_and_rethrow_def Let_def)
next
  fix ord
  assume "SDKDutchOrder_parse s (encodedOrder body) (chainId body) = Inr ord
            \<and> (env = None \<or> env = Some [])"
  then show "fst (fromPostRequest s env body) = Inl (Error ''CUSTOM_REACTOR_ADDRESS is not set'')"
    using assms
    by (auto simp: fromPostRequest_def tryParseDutchOrder_def tryParseDutchOrder_catch_def
        log_and_rethrow_def Let_def)
next
  fix ord addr
  assume "SDKDutchOrder_parse s (encodedOrder body) (chainId body) = Inr ord
            \<and> env = Some addr \<and> addr \<noteq> []
            \<and> \<not> eq_ignoring_case (info_reactor s ord) addr"
  then show "fst (fromPostRequest s env body) = Inl (Error ''Invalid reactor address'')"
    using assms
    by (auto simp: fromPostRequest_def tryParseDutchOrder_def tryParseDutchOrder_catch_def
        log_and_rethrow_def Let_def toLowerCase_eq_iff)
next
  fix e2 assume "fst (fromPostRequest s env body) = Inl e2"
  then show "hd (snd (fromPostRequest s env body))
              = (WARN,
                 ''Unable to parse legacy Dutch order - trying to parse with custom reactor'',
                 ErrCtx e1 (encodedOrder body) (chainId body) (signature body))"
    using assms
    by (auto simp: fromPostRequest_def tryParseDutchOrder_def tryParseDutchOrder_catch_def
        log_and_rethrow_def Let_def split: sum.splits option.splits if_splits)
next
  fix e2 assume "fst (fromPostRequest s env body) = Inl e2"
  then show "last (snd (fromPostRequest s env body))
              = (ERROR, ''Unable to parse legacy Dutch order'',
                 ErrCtx e2 (encodedOrder body) (chainId body) (signature body))"
    using assms
    by (auto simp: fromPostRequest_def tryParseDutchOrder_def tryParseDutchOrder_catch_def
        log_and_rethrow_def Let_def split: sum.splits option.splits if_splits)
next
  fix s' :: "('a, 'b) sdk"
  assume h: "SDKDutchOrder_parse s' = SDKDutchOrder_parse s \<and> info_reactor s' = info_reactor s
            \<and> isl (tryParseDutchOrder_try s' (encodedOrder body) (signature body)
                     (chainId body) (quoteId body))"
  then obtain e1' where
    "tryParseDutchOrder_try s' (encodedOrder body) (signature body) (chainId body)
       (quoteId body) = Inl e1'"
    by (auto simp: isl_def)
  then show "fst (fromPostRequest s' env body) = fst (fromPostRequest s env body)"
    using assms h
    by (auto simp: fromPostRequest_def tryParseDutchOrder_def tryParseDutchOrder_catch_def
        log_and_rethrow_def Let_def split: sum.splits option.splits)
next
  fix s' :: "('a, 'b) sdk"
  assume h: "SDKDutchOrder_parse s' = SDKDutchOrder_parse s \<and> info_reactor s' = info_reactor s
            \<and> isl (tryParseDutchOrder_try s' (encodedOrder body) (signature body)
                     (chainId body) (quoteId body))"
  then obtain e1' where
    "tryParseDutchOrder_try s' (encodedOrder body) (signature body) (chainId body)
       (quoteId body) = Inl e1'"
    by (auto simp: isl_def)
  then show "tl (snd (fromPostRequest s' env body)) = tl (snd (fromPostRequest s env body))"
    using assms h
    by (auto simp: fromPostRequest_def tryParseDutchOrder_def tryParseDutchOrder_catch_def
        log_and_rethrow_def Let_def split: sum.splits option.splits)
qed

theorem both_fail_reports_fallback_witness:
  "fst (fromPostRequest toy_sdk None (submission ''0xZ'' None))
     = Inl (SdkError ''base decode failed'')
   \<and> fst (fromPostRequest toy_sdk None (submission ''0xC'' None))
     = Inl (Error ''CUSTOM_REACTOR_ADDRESS is not set'')
   \<and> fst (fromPostRequest toy_sdk (Some ''0xcustoN'') (submission ''0xC'' None))
     = Inl (Error ''Invalid reactor address'')
   \<and> hd (snd (fromPostRequest toy_sdk None (submission ''0xZ'' None)))
       = (WARN, ''Unable to parse legacy Dutch order - trying to parse with custom reactor'',
          ErrCtx (SdkError ''generic decode failed'') ''0xZ'' 1 ''0xsig'')
   \<and> last (snd (fromPostRequest toy_sdk None (submission ''0xZ'' None)))
       = (ERROR, ''Unable to parse legacy Dutch order'',
          ErrCtx (SdkError ''base decode failed'') ''0xZ'' 1 ''0xsig'')
   \<and> tryParseDutchOrder_try toy_sdk_other_generic ''0xZ'' ''0xsig'' 1 (Some ''q-1'')
       = Inl (SdkError ''another generic failure'')
   \<and> fst (fromPostRequest toy_sdk_other_generic None (submission ''0xZ'' None))
       = Inl (SdkError ''base decode failed'')"
proof -
  let ?z = "submission ''0xZ'' None"
  let ?c = "submission ''0xC'' None"
  have tz: "orderType ?z = None" and tc: "orderType ?c = None"
    by (simp_all add: submission_def)
  have gz: "tryParseDutchOrder_try toy_sdk (encodedOrder ?z) (signature ?z) (chainId ?z)
             (quoteId ?z) = Inl (SdkError ''generic decode failed'')"
    by (simp add: submission_def tryParseDutchOrder_try_def toy_sdk_def)
  have gc: "tryParseDutchOrder_try toy_sdk (encodedOrder ?c) (signature ?c) (chainId ?c)
             (quoteId ?c) = Inl (SdkError ''generic decode failed'')"
    by (simp add: submission_def tryParseDutchOrder_try_def toy_sdk_def)
  have pz: "SDKDutchOrder_parse toy_sdk (encodedOrder ?z) (chainId ?z) = Inl ''base decode failed''"
    by (simp add: submission_def toy_sdk_def)
  have pc: "SDKDutchOrder_parse toy_sdk (encodedOrder ?c) (chainId ?c) = Inr (''0xCuStOm'', 7, 7)"
    by (simp add: submission_def toy_sdk_def)
  have ne: "\<not> eq_ignoring_case (info_reactor toy_sdk (''0xCuStOm'', 7, 7)) ''0xcustoN''"
    by (simp add: toy_sdk_def neq_custom)
  have go: "tryParseDutchOrder_try toy_sdk_other_generic ''0xZ'' ''0xsig'' 1 (Some ''q-1'')
       = Inl (SdkError ''another generic failure'')"
    by (simp add: tryParseDutchOrder_try_def toy_sdk_other_generic_def)
  have so: "SDKDutchOrder_parse toy_sdk_other_generic = SDKDutchOrder_parse toy_sdk
      \<and> info_reactor toy_sdk_other_generic = info_reactor toy_sdk
      \<and> isl (tryParseDutchOrder_try toy_sdk_other_generic (encodedOrder ?z) (signature ?z)
               (chainId ?z) (quoteId ?z))"
    by (simp add: tryParseDutchOrder_try_def toy_sdk_other_generic_def submission_def)
  note Z = both_fail_reports_fallback [OF tz gz, of None]
  note C0 = both_fail_reports_fallback [OF tc gc, of None]
  note C1 = both_fail_reports_fallback [OF tc gc, of "Some ''0xcustoN''"]
  have r1: "fst (fromPostRequest toy_sdk None ?z) = Inl (SdkError ''base decode failed'')"
    using Z pz by blast
  have r2: "fst (fromPostRequest toy_sdk None ?c)
      = Inl (Error ''CUSTOM_REACTOR_ADDRESS is not set'')"
    using C0 pc by blast
  have r3: "fst (fromPostRequest toy_sdk (Some ''0xcustoN'') ?c)
      = Inl (Error ''Invalid reactor address'')"
    using C1 pc ne by blast
  have r45: "hd (snd (fromPostRequest toy_sdk None ?z))
       = (WARN, ''Unable to parse legacy Dutch order - trying to parse with custom reactor'',
          ErrCtx (SdkError ''generic decode failed'') (encodedOrder ?z) (chainId ?z)
            (signature ?z))
      \<and> last (snd (fromPostRequest toy_sdk None ?z))
       = (ERROR, ''Unable to parse legacy Dutch order'',
          ErrCtx (SdkError ''base decode failed'') (encodedOrder ?z) (chainId ?z)
            (signature ?z))"
    using Z r1 by blast
  have r6: "fst (fromPostRequest toy_sdk_other_generic None ?z)
      = fst (fromPostRequest toy_sdk None ?z)"
    using Z so by blast
  have f: "encodedOrder ?z = ''0xZ''" "chainId ?z = 1" "signature ?z = ''0xsig''"
    by (simp_all add: submission_def)
  show ?thesis
    using r45 unfolding f
    by (intro conjI) (rule r1, rule r2, rule r3, blast, blast, rule go,
        simp only: r6 r1)
qed

section \<open>When the fallback is reached\<close>

text \<open>
  C2, as the specification states it: the fallback runs only when \<open>orderType\<close> is absent,
  and never for a declared type. The code does otherwise: \<open>tryParseDutchV1Order\<close> and
  \<open>tryParseLimitOrder\<close> call \<open>tryParseDutchOrder\<close>, fallback included. The payload
  \<open>0xC\<close> declared as Dutch is decoded by the fallback.
\<close>

theorem declared_type_reaches_fallback_counterexample:
  "orderType (submission ''0xC'' (Some Dutch)) = Some Dutch
   \<and> fallback_attempted (snd (fromPostRequest toy_sdk (Some ''0xcustom'')
        (submission ''0xC'' (Some Dutch))))
   \<and> fst (fromPostRequest toy_sdk (Some ''0xcustom'') (submission ''0xC'' (Some Dutch)))
       = Inr (DutchV1Order (''0xCuStOm'', 7, 7) ''0xsig'' 1 (Some ''q-1''))"
  by (simp add: parser_defs toy_sdk_def submission_def fallback_attempted_def
      toLowerCase_custom toLowerCase_lower)

text \<open>
  C2, amended: the fallback is attempted exactly when the declared \<open>orderType\<close> is absent,
  Dutch or Limit and the generic stage fails (the generic parser throws, or the type it
  infers is neither Limit nor Dutch). For Dutch_V2 and Relay it is never reached.
\<close>

theorem fallback_reached_iff:
  "fallback_attempted (snd (fromPostRequest s env body)) \<longleftrightarrow>
     (orderType body = None \<or> orderType body = Some Dutch \<or> orderType body = Some Limit)
     \<and> isl (tryParseDutchOrder_try s (encodedOrder body) (signature body) (chainId body)
              (quoteId body))"
  by (cases "orderType body" rule: option.exhaust; (cases "the (orderType body)")?)
     (auto simp: fromPostRequest_def tryParseDutchV1Order_def tryParseLimitOrder_def
      tryParseDutchOrder_def tryParseDutchOrder_catch_def tryParseDutchV2Order_def
      tryParseRelayOrder_def log_and_rethrow_def fallback_attempted_def Let_def
      split: sum.splits option.splits if_splits OrderType.splits)

theorem fallback_reached_iff_witness:
  "fallback_attempted (snd (fromPostRequest toy_sdk None (submission ''0xC'' (Some Limit))))
   \<and> \<not> fallback_attempted (snd (fromPostRequest toy_sdk None (submission ''0xC'' (Some Dutch_V2))))
   \<and> \<not> fallback_attempted (snd (fromPostRequest toy_sdk None (submission ''0xC'' (Some Relay))))
   \<and> \<not> fallback_attempted (snd (fromPostRequest toy_sdk None (submission ''0xA'' None)))"
  using fallback_reached_iff [of toy_sdk None "submission ''0xC'' (Some Limit)"]
    fallback_reached_iff [of toy_sdk None "submission ''0xC'' (Some Dutch_V2)"]
    fallback_reached_iff [of toy_sdk None "submission ''0xC'' (Some Relay)"]
    fallback_reached_iff [of toy_sdk None "submission ''0xA'' None"]
  by (simp add: submission_def tryParseDutchOrder_try_def toy_sdk_def)

section \<open>The reactor check of the fallback\<close>

text \<open>
  C3: on the fallback path (generic stage failed, \<open>orderType\<close> absent), when the
  re-decode against the base schema succeeds and a non-empty reactor address is
  configured, decoding succeeds if and only if the decoded order's reactor and the
  configured address are equal up to the case of their letters; the success is the DutchV1
  order built from the re-decoded order, and a mismatch throws
  \<open>Error('Invalid reactor address')\<close>, the specification's FallbackReactorMismatch.
\<close>

theorem fallback_succeeds_iff_reactor_matches:
  assumes "orderType body = None"
    and "tryParseDutchOrder_try s (encodedOrder body) (signature body) (chainId body)
           (quoteId body) = Inl e"
    and "SDKDutchOrder_parse s (encodedOrder body) (chainId body) = Inr ord"
    and "env = Some addr" and "addr \<noteq> []"
  shows "((\<exists>res. fst (fromPostRequest s env body) = Inr res)
            \<longleftrightarrow> eq_ignoring_case (info_reactor s ord) addr)
     \<and> (eq_ignoring_case (info_reactor s ord) addr \<longrightarrow>
          fst (fromPostRequest s env body)
            = Inr (DutchV1Order ord (signature body) (chainId body) (quoteId body)))
     \<and> (\<not> eq_ignoring_case (info_reactor s ord) addr \<longrightarrow>
          fst (fromPostRequest s env body) = Inl (Error ''Invalid reactor address''))"
  using assms
  by (auto simp: fromPostRequest_def tryParseDutchOrder_def tryParseDutchOrder_catch_def
      log_and_rethrow_def Let_def toLowerCase_eq_iff)

theorem fallback_succeeds_iff_reactor_matches_witness:
  "eq_ignoring_case ''0xCuStOm'' ''0xCUSTOM''
   \<and> fst (fromPostRequest toy_sdk (Some ''0xCUSTOM'') (submission ''0xC'' None))
     = Inr (DutchV1Order (''0xCuStOm'', 7, 7) ''0xsig'' 1 (Some ''q-1''))
   \<and> length ''0xcustoN'' = length ''0xCuStOm''
   \<and> \<not> eq_ignoring_case ''0xCuStOm'' ''0xcustoN''
   \<and> fst (fromPostRequest toy_sdk (Some ''0xcustoN'') (submission ''0xC'' None))
     = Inl (Error ''Invalid reactor address'')
   \<and> fst (fromPostRequest toy_sdk (Some ''0xother'') (submission ''0xC'' None))
     = Inl (Error ''Invalid reactor address'')"
proof -
  let ?b = "submission ''0xC'' None"
  have a: "orderType ?b = None" by (simp add: submission_def)
  have b: "tryParseDutchOrder_try toy_sdk (encodedOrder ?b) (signature ?b) (chainId ?b)
             (quoteId ?b) = Inl (SdkError ''generic decode failed'')"
    by (simp add: submission_def tryParseDutchOrder_try_def toy_sdk_def)
  have c: "SDKDutchOrder_parse toy_sdk (encodedOrder ?b) (chainId ?b) = Inr (''0xCuStOm'', 7, 7)"
    by (simp add: submission_def toy_sdk_def)
  have r: "info_reactor toy_sdk (''0xCuStOm'', 7, 7) = ''0xCuStOm''"
    by (simp add: toy_sdk_def)
  have f: "signature ?b = ''0xsig''" "chainId ?b = 1" "quoteId ?b = Some ''q-1''"
    by (simp_all add: submission_def)
  have n1: "''0xCUSTOM'' \<noteq> []" and n2: "''0xcustoN'' \<noteq> []" and n3: "''0xother'' \<noteq> []"
    by simp_all
  have m: "eq_ignoring_case ''0xCuStOm'' ''0xCUSTOM''" by (rule eq_custom)
  have x: "\<not> eq_ignoring_case ''0xCuStOm'' ''0xcustoN''" by (rule neq_custom)
  have y: "\<not> eq_ignoring_case ''0xCuStOm'' ''0xother''" by (rule neq_other)
  have r1: "fst (fromPostRequest toy_sdk (Some ''0xCUSTOM'') ?b)
      = Inr (DutchV1Order (''0xCuStOm'', 7, 7) ''0xsig'' 1 (Some ''q-1''))"
    using fallback_succeeds_iff_reactor_matches [OF a b c refl n1] m unfolding r f by blast
  have r2: "fst (fromPostRequest toy_sdk (Some ''0xcustoN'') ?b)
      = Inl (Error ''Invalid reactor address'')"
    using fallback_succeeds_iff_reactor_matches [OF a b c refl n2] x unfolding r f by blast
  have r3: "fst (fromPostRequest toy_sdk (Some ''0xother'') ?b)
      = Inl (Error ''Invalid reactor address'')"
    using fallback_succeeds_iff_reactor_matches [OF a b c refl n3] y unfolding r f by blast
  have l: "length ''0xcustoN'' = length ''0xCuStOm''" by simp
  show ?thesis
    by (intro conjI) (rule m, rule r1, rule l, rule x, rule r2, rule r3)
qed

text \<open>
  C4: when the fallback is reached (declared type absent, Dutch or Limit, and the generic
  stage failed with \<open>e\<close>) and the base-schema re-decode succeeds, but
  \<open>CUSTOM_REACTOR_ADDRESS\<close> is undefined or empty, decoding fails with
  \<open>Error('CUSTOM_REACTOR_ADDRESS is not set')\<close>, the specification's
  FallbackConfigurationMissing. That error is neither the generic stage's failure nor any
  exception of an SDK decoder.
\<close>

theorem fallback_without_configured_reactor:
  assumes "orderType body = None \<or> orderType body = Some Dutch \<or> orderType body = Some Limit"
    and "tryParseDutchOrder_try s (encodedOrder body) (signature body) (chainId body)
           (quoteId body) = Inl e"
    and "SDKDutchOrder_parse s (encodedOrder body) (chainId body) = Inr ord"
    and "env = None \<or> env = Some []"
  shows "fst (fromPostRequest s env body) = Inl (Error ''CUSTOM_REACTOR_ADDRESS is not set'')
     \<and> Error ''CUSTOM_REACTOR_ADDRESS is not set'' \<noteq> e
     \<and> (\<forall>ex. Error ''CUSTOM_REACTOR_ADDRESS is not set'' \<noteq> SdkError ex)
     \<and> fallback_attempted (snd (fromPostRequest s env body))"
proof -
  have "Error ''CUSTOM_REACTOR_ADDRESS is not set'' \<noteq> e"
    using try_fails_cases [OF assms(2)] by auto
  moreover have "fst (fromPostRequest s env body)
      = Inl (Error ''CUSTOM_REACTOR_ADDRESS is not set'')"
    using assms
    by (auto simp: fromPostRequest_def tryParseDutchV1Order_def tryParseLimitOrder_def
        tryParseDutchOrder_def tryParseDutchOrder_catch_def log_and_rethrow_def)
  moreover have "fallback_attempted (snd (fromPostRequest s env body))"
    using assms
    by (auto simp: fromPostRequest_def tryParseDutchV1Order_def tryParseLimitOrder_def
        tryParseDutchOrder_def tryParseDutchOrder_catch_def log_and_rethrow_def
        fallback_attempted_def)
  ultimately show ?thesis by simp
qed

theorem fallback_without_configured_reactor_witness:
  "fst (fromPostRequest toy_sdk None (submission ''0xC'' None))
     = Inl (Error ''CUSTOM_REACTOR_ADDRESS is not set'')
   \<and> fst (fromPostRequest toy_sdk (Some []) (submission ''0xC'' (Some Limit)))
     = Inl (Error ''CUSTOM_REACTOR_ADDRESS is not set'')"
proof -
  have b: "tryParseDutchOrder_try toy_sdk (encodedOrder (submission ''0xC'' t))
             (signature (submission ''0xC'' t)) (chainId (submission ''0xC'' t))
             (quoteId (submission ''0xC'' t)) = Inl (SdkError ''generic decode failed'')" for t
    by (simp add: submission_def tryParseDutchOrder_try_def toy_sdk_def)
  have c: "SDKDutchOrder_parse toy_sdk (encodedOrder (submission ''0xC'' t))
             (chainId (submission ''0xC'' t)) = Inr (''0xCuStOm'', 7, 7)" for t
    by (simp add: submission_def toy_sdk_def)
  have t1: "orderType (submission ''0xC'' None) = None
      \<or> orderType (submission ''0xC'' None) = Some Dutch
      \<or> orderType (submission ''0xC'' None) = Some Limit"
    by (simp add: submission_def)
  have t2: "orderType (submission ''0xC'' (Some Limit)) = None
      \<or> orderType (submission ''0xC'' (Some Limit)) = Some Dutch
      \<or> orderType (submission ''0xC'' (Some Limit)) = Some Limit"
    by (simp add: submission_def)
  have e1: "(None :: string option) = None \<or> (None :: string option) = Some []" by simp
  have e2: "Some [] = None \<or> Some ([] :: string) = Some []" by simp
  show ?thesis
    using fallback_without_configured_reactor [OF t1 b c e1] fallback_without_configured_reactor [OF t2 b c e2] by simp
qed

section \<open>Determinism\<close>

text \<open>
  C5, as the specification states it: two submissions with the same \<open>encodedOrder\<close> and
  \<open>chainId\<close> decode to the same success value or the same failure kind. The code also
  reads the declared \<open>orderType\<close>: the payload \<open>0xA\<close> declared Dutch decodes, and the
  same payload on the same chain declared Limit is rejected.
\<close>

theorem same_bytes_different_outcome_counterexample:
  "encodedOrder (submission ''0xA'' (Some Dutch)) = encodedOrder (submission ''0xA'' (Some Limit))
   \<and> chainId (submission ''0xA'' (Some Dutch)) = chainId (submission ''0xA'' (Some Limit))
   \<and> fst (fromPostRequest toy_sdk None (submission ''0xA'' (Some Dutch)))
       = Inr (DutchV1Order (''0xReactor'', 10, 5) ''0xsig'' 1 (Some ''q-1''))
   \<and> fst (fromPostRequest toy_sdk None (submission ''0xA'' (Some Limit)))
       = Inl (UnexpectedOrderTypeError Dutch)"
  by (simp add: parser_defs toy_sdk_def submission_def)

text \<open>
  C5, amended: for two submissions with the same \<open>encodedOrder\<close>, \<open>chainId\<close> and
  declared \<open>orderType\<close>, decoded with the same decoders and the same configured reactor
  address, decoding throws the same failure for both or succeeds for both with the same
  variant and the same decoded order; when \<open>signature\<close>, \<open>quoteId\<close> and \<open>requestId\<close>
  agree as well, the results and the logs are identical.
\<close>

theorem outcome_determined_by_bytes_chain_type:
  assumes "encodedOrder b1 = encodedOrder b2" and "chainId b1 = chainId b2"
    and "orderType b1 = orderType b2"
  shows "map_sum id (\<lambda>res. (order_orderType res, order_inner res))
             (fst (fromPostRequest s env b1))
           = map_sum id (\<lambda>res. (order_orderType res, order_inner res))
               (fst (fromPostRequest s env b2))
     \<and> (signature b1 = signature b2 \<and> quoteId b1 = quoteId b2 \<and> requestId b1 = requestId b2
          \<longrightarrow> fromPostRequest s env b1 = fromPostRequest s env b2)"
  using assms
  by (cases "orderType b2" rule: option.exhaust; (cases "the (orderType b2)")?)
     (auto simp: fromPostRequest_def tryParseDutchV1Order_def tryParseLimitOrder_def
      tryParseDutchOrder_def tryParseDutchOrder_catch_def tryParseDutchOrder_try_def
      tryParseDutchV2Order_def tryParseRelayOrder_def log_and_rethrow_def Let_def
      split: sum.splits option.splits)

theorem outcome_determined_by_bytes_chain_type_witness:
  "map_sum id (\<lambda>res. (order_orderType res, order_inner res))
      (fst (fromPostRequest toy_sdk None (submission ''0xA'' (Some Dutch))))
    = map_sum id (\<lambda>res. (order_orderType res, order_inner res))
      (fst (fromPostRequest toy_sdk None
         ((submission ''0xA'' (Some Dutch))\<lparr>signature := ''0xother'', quoteId := None\<rparr>)))
   \<and> fst (fromPostRequest toy_sdk None (submission ''0xA'' (Some Dutch)))
       = Inr (DutchV1Order (''0xReactor'', 10, 5) ''0xsig'' 1 (Some ''q-1''))
   \<and> fromPostRequest toy_sdk None (submission ''0xZ'' None)
       = fromPostRequest toy_sdk None ((submission ''0xZ'' None)\<lparr>chainId := 1\<rparr>)"
proof -
  let ?b1 = "submission ''0xA'' (Some Dutch)"
  let ?b2 = "(submission ''0xA'' (Some Dutch))\<lparr>signature := ''0xother'', quoteId := None\<rparr>"
  let ?b3 = "submission ''0xZ'' None"
  let ?b4 = "(submission ''0xZ'' None)\<lparr>chainId := 1\<rparr>"
  have a: "encodedOrder ?b1 = encodedOrder ?b2" by simp
  have b: "chainId ?b1 = chainId ?b2" by simp
  have c: "orderType ?b1 = orderType ?b2" by simp
  have d: "fst (fromPostRequest toy_sdk None ?b1)
       = Inr (DutchV1Order (''0xReactor'', 10, 5) ''0xsig'' 1 (Some ''q-1''))"
    by (simp add: parser_defs toy_sdk_def submission_def)
  have a': "encodedOrder ?b3 = encodedOrder ?b4" by simp
  have b': "chainId ?b3 = chainId ?b4" by (simp add: submission_def)
  have c': "orderType ?b3 = orderType ?b4" by simp
  have d': "signature ?b3 = signature ?b4 \<and> quoteId ?b3 = quoteId ?b4
      \<and> requestId ?b3 = requestId ?b4"
    by simp
  have r1: "map_sum id (\<lambda>res. (order_orderType res, order_inner res))
        (fst (fromPostRequest toy_sdk None ?b1))
      = map_sum id (\<lambda>res. (order_orderType res, order_inner res))
        (fst (fromPostRequest toy_sdk None ?b2))"
    using outcome_determined_by_bytes_chain_type [OF a b c, of toy_sdk None]
    by (rule conjunct1)
  have r2: "fromPostRequest toy_sdk None ?b3 = fromPostRequest toy_sdk None ?b4"
    using outcome_determined_by_bytes_chain_type [OF a' b' c', of toy_sdk None] d'
    by blast
  show ?thesis
    by (intro conjI) (rule r1, rule d, rule r2)
qed

section \<open>What a decoded order carries\<close>

text \<open>
  C6, as the specification states it: every decoded order carries the signature, the
  \<open>chainId\<close> and each correlation id present on the submission. The code passes no
  \<open>quoteId\<close> to \<open>new RelayOrder\<close>, and no \<open>requestId\<close> to \<open>new DutchV1Order\<close> or
  \<open>new LimitOrder\<close>: a Relay submission with a \<open>quoteId\<close> and a Dutch submission with a
  \<open>requestId\<close> decode to orders without them.
\<close>

theorem relay_drops_quoteId_counterexample:
  "fst (fromPostRequest toy_sdk None (submission ''0xD'' (Some Relay)))
     = Inr (RelayOrder (''0xRelay'', 3, 3) ''0xsig'' 1)
   \<and> quoteId (submission ''0xD'' (Some Relay)) = Some ''q-1''
   \<and> order_quoteId (RelayOrder (''0xRelay'', 3, 3) ''0xsig'' 1)
       \<noteq> quoteId (submission ''0xD'' (Some Relay))
   \<and> fst (fromPostRequest toy_sdk None (submission ''0xA'' (Some Dutch)))
       = Inr (DutchV1Order (''0xReactor'', 10, 5) ''0xsig'' 1 (Some ''q-1''))
   \<and> requestId (submission ''0xA'' (Some Dutch)) = Some ''r-1''
   \<and> order_requestId (DutchV1Order (''0xReactor'', 10, 5) ''0xsig'' 1 (Some ''q-1''))
       \<noteq> requestId (submission ''0xA'' (Some Dutch))"
  by (simp add: parser_defs toy_sdk_def submission_def)

text \<open>
  C6, amended: every decoded order carries the signature and the \<open>chainId\<close> of the
  submission. A DutchV1, Limit or DutchV2 order carries the submission's \<open>quoteId\<close>;
  only a DutchV2 order carries its \<open>requestId\<close>; a Relay order carries neither
  correlation id.
\<close>

theorem order_carries_submission_fields:
  assumes "fst (fromPostRequest s env body) = Inr res"
  shows "order_signature res = signature body \<and> order_chainId res = chainId body
     \<and> (order_orderType res \<noteq> Relay \<longrightarrow> order_quoteId res = quoteId body)
     \<and> (order_orderType res = Relay \<longrightarrow> order_quoteId res = None)
     \<and> (order_orderType res = Dutch_V2 \<longrightarrow> order_requestId res = requestId body)
     \<and> (order_orderType res \<noteq> Dutch_V2 \<longrightarrow> order_requestId res = None)"
  using assms
  by (cases "orderType body" rule: option.exhaust; (cases "the (orderType body)")?)
     (auto simp: fromPostRequest_def tryParseDutchV1Order_def tryParseLimitOrder_def
      tryParseDutchOrder_def tryParseDutchOrder_catch_def tryParseDutchOrder_try_def
      tryParseDutchV2Order_def tryParseRelayOrder_def log_and_rethrow_def Let_def
      split: sum.splits option.splits if_splits)

theorem order_carries_submission_fields_witness:
  "order_signature (DutchV2Order (''0xV2'', 8, 4) ''0xsig'' 1 None None (Some ''q-1'') (Some ''r-1''))
     = signature (submission ''0xE'' (Some Dutch_V2))
   \<and> order_quoteId (DutchV2Order (''0xV2'', 8, 4) ''0xsig'' 1 None None (Some ''q-1'') (Some ''r-1''))
     = Some ''q-1''
   \<and> order_requestId (DutchV2Order (''0xV2'', 8, 4) ''0xsig'' 1 None None (Some ''q-1'') (Some ''r-1''))
     = Some ''r-1''"
proof -
  have a: "fst (fromPostRequest toy_sdk None (submission ''0xE'' (Some Dutch_V2)))
      = Inr (DutchV2Order (''0xV2'', 8, 4) ''0xsig'' 1 None None (Some ''q-1'') (Some ''r-1''))"
    by (simp add: parser_defs toy_sdk_def submission_def)
  show ?thesis using order_carries_submission_fields [OF a] by (simp add: submission_def)
qed

section \<open>Declared Relay and Dutch_V2 submissions\<close>

text \<open>
  C7: for a submission declared Relay whose payload the relay parser decodes, when the type
  re-derived by \<open>relayParser.getOrderType\<close> is some \<open>t\<close> other than Relay, decoding
  throws \<open>UnexpectedOrderTypeError(t)\<close> and returns no order. The failure is terminal:
  the only log entry is the Relay error record, and the fallback is not attempted.
\<close>

theorem relay_type_mismatch_unexpected:
  assumes "orderType body = Some Relay"
    and "relayParser_parseOrder s (encodedOrder body) (chainId body) = Inr ord"
    and "relayParser_getOrderType s ord = Inr t"
    and "t \<noteq> Relay"
  shows "fromPostRequest s env body
           = (Inl (UnexpectedOrderTypeError t),
              [(ERROR, ''Unable to parse Relay order'',
                ErrCtx (UnexpectedOrderTypeError t) (encodedOrder body) (chainId body)
                  (signature body))])
     \<and> \<not> fallback_attempted (snd (fromPostRequest s env body))"
  using assms
  by (simp add: fromPostRequest_def tryParseRelayOrder_def log_and_rethrow_def
      fallback_attempted_def)

theorem relay_type_mismatch_unexpected_witness:
  "fromPostRequest toy_sdk (Some ''0xcustom'') (submission ''0xA'' (Some Relay))
     = (Inl (UnexpectedOrderTypeError Dutch),
        [(ERROR, ''Unable to parse Relay order'',
          ErrCtx (UnexpectedOrderTypeError Dutch) ''0xA'' 1 ''0xsig'')])"
proof -
  let ?b = "submission ''0xA'' (Some Relay)"
  have a: "orderType ?b = Some Relay" by (simp add: submission_def)
  have b: "relayParser_parseOrder toy_sdk (encodedOrder ?b) (chainId ?b)
             = Inr (''0xReactor'', 10, 5)"
    by (simp add: submission_def toy_sdk_def)
  have c: "relayParser_getOrderType toy_sdk (''0xReactor'', 10, 5) = Inr Dutch"
    by (simp add: toy_sdk_def)
  have d: "Dutch \<noteq> Relay" by simp
  show ?thesis using relay_type_mismatch_unexpected [OF a b c d, of "Some ''0xcustom''"] by (simp add: submission_def)
qed

text \<open>
  C8: for a submission declared Dutch_V2, only the V2 decoder is used. Its failure is
  thrown to the caller after the single DutchV2 error record; the fallback is not
  attempted; and the whole outcome is the same for any other generic parser, base-schema
  parser, relay parser and reactor configuration, so none of them is consulted.
\<close>

theorem dutch_v2_uses_v2_decoder_only:
  assumes "orderType body = Some Dutch_V2"
  shows "(\<forall>ex. CosignedV2DutchOrder_parse s (encodedOrder body) (chainId body) = Inl ex \<longrightarrow>
            fromPostRequest s env body
              = (Inl (SdkError ex),
                 [(ERROR, ''Unable to parse DutchV2 order'',
                   ErrCtx (SdkError ex) (encodedOrder body) (chainId body) (signature body))]))
     \<and> \<not> fallback_attempted (snd (fromPostRequest s env body))
     \<and> (\<forall>s' env'. CosignedV2DutchOrder_parse s' = CosignedV2DutchOrder_parse s \<longrightarrow>
            fromPostRequest s' env' body = fromPostRequest s env body)"
  using assms
  by (auto simp: fromPostRequest_def tryParseDutchV2Order_def log_and_rethrow_def
      fallback_attempted_def split: sum.splits)

theorem dutch_v2_uses_v2_decoder_only_witness:
  "fromPostRequest toy_sdk (Some ''0xcustom'') (submission ''0xA'' (Some Dutch_V2))
     = (Inl (SdkError ''v2 decode failed''),
        [(ERROR, ''Unable to parse DutchV2 order'',
          ErrCtx (SdkError ''v2 decode failed'') ''0xA'' 1 ''0xsig'')])
   \<and> uniswapXParser_parseOrder toy_sdk ''0xA'' 1 = Inr (''0xReactor'', 10, 5)
   \<and> fromPostRequest
        (toy_sdk\<lparr>uniswapXParser_parseOrder := \<lambda>enc chain. Inl ''unused'',
                 SDKDutchOrder_parse := \<lambda>enc chain. Inl ''unused''\<rparr>)
        None (submission ''0xA'' (Some Dutch_V2))
      = fromPostRequest toy_sdk (Some ''0xcustom'') (submission ''0xA'' (Some Dutch_V2))"
proof -
  let ?b = "submission ''0xA'' (Some Dutch_V2)"
  have a: "orderType ?b = Some Dutch_V2" by (simp add: submission_def)
  have b: "CosignedV2DutchOrder_parse toy_sdk (encodedOrder ?b) (chainId ?b)
             = Inl ''v2 decode failed''"
    by (simp add: submission_def toy_sdk_def)
  have c: "uniswapXParser_parseOrder toy_sdk ''0xA'' 1 = Inr (''0xReactor'', 10, 5)"
    by (simp add: toy_sdk_def)
  have d: "CosignedV2DutchOrder_parse
        (toy_sdk\<lparr>uniswapXParser_parseOrder := \<lambda>enc chain. Inl ''unused'',
                 SDKDutchOrder_parse := \<lambda>enc chain. Inl ''unused''\<rparr>)
      = CosignedV2DutchOrder_parse toy_sdk"
    by simp
  show ?thesis
    using dutch_v2_uses_v2_decoder_only [OF a, of toy_sdk "Some ''0xcustom''"] b c d
    by (simp add: submission_def)
qed

text \<open>
  C10: for a submission declared Dutch_V2, whenever \<open>CosignedV2DutchOrder.parse\<close>
  succeeds the DutchV2 order built from its result is returned, whatever type the parsers
  would derive for that result; \<open>UnexpectedOrderTypeError\<close> is never thrown on this
  path.
\<close>

theorem dutch_v2_no_type_check:
  assumes "orderType body = Some Dutch_V2"
  shows "(\<forall>ord. CosignedV2DutchOrder_parse s (encodedOrder body) (chainId body) = Inr ord \<longrightarrow>
            fromPostRequest s env body
              = (Inr (DutchV2Order ord (signature body) (chainId body) None None
                        (quoteId body) (requestId body)), []))
     \<and> (\<forall>t. fst (fromPostRequest s env body) \<noteq> Inl (UnexpectedOrderTypeError t))"
  using assms
  by (auto simp: fromPostRequest_def tryParseDutchV2Order_def log_and_rethrow_def
      split: sum.splits)

theorem dutch_v2_no_type_check_witness:
  "uniswapXParser_getOrderType toy_sdk (''0xV2'', 8, 4) = Inr Dutch
   \<and> relayParser_getOrderType toy_sdk (''0xV2'', 8, 4) = Inr Dutch
   \<and> fromPostRequest toy_sdk None (submission ''0xE'' (Some Dutch_V2))
     = (Inr (DutchV2Order (''0xV2'', 8, 4) ''0xsig'' 1 None None (Some ''q-1'') (Some ''r-1'')), [])"
proof -
  let ?b = "submission ''0xE'' (Some Dutch_V2)"
  have a: "orderType ?b = Some Dutch_V2" by (simp add: submission_def)
  have b: "CosignedV2DutchOrder_parse toy_sdk (encodedOrder ?b) (chainId ?b)
             = Inr (''0xV2'', 8, 4)"
    by (simp add: submission_def toy_sdk_def)
  have c: "uniswapXParser_getOrderType toy_sdk (''0xV2'', 8, 4) = Inr Dutch
      \<and> relayParser_getOrderType toy_sdk (''0xV2'', 8, 4) = Inr Dutch"
    by (simp add: toy_sdk_def)
  show ?thesis
    using dutch_v2_no_type_check [OF a, of toy_sdk None] b c by (simp add: submission_def)
qed

section \<open>The tag of a fallback success\<close>

text \<open>
  C9: whenever the generic stage fails and \<open>tryParseDutchOrder\<close> still returns an order,
  that order is the DutchV1 order built from the base-schema re-decode. Its tag is Dutch,
  never Limit, whatever \<open>uniswapXParser.getOrderType\<close> says about the re-decoded order.
\<close>

theorem fallback_success_is_DutchV1:
  assumes "tryParseDutchOrder_try s encoded sg chain qid = Inl e"
    and "fst (tryParseDutchOrder s env encoded sg chain qid) = Inr res"
  shows "(\<exists>ord. SDKDutchOrder_parse s encoded chain = Inr ord
            \<and> res = DutchV1Order ord sg chain qid)
     \<and> order_orderType res = Dutch \<and> order_orderType res \<noteq> Limit"
  using assms
  by (auto simp: tryParseDutchOrder_def tryParseDutchOrder_catch_def log_and_rethrow_def
      Let_def split: sum.splits option.splits if_splits)

theorem fallback_success_is_DutchV1_witness:
  "uniswapXParser_getOrderType toy_sdk (''0xCuStOm'', 7, 7) = Inr Limit
   \<and> SDKDutchOrder_parse toy_sdk ''0xC'' 1 = Inr (''0xCuStOm'', 7, 7)
   \<and> fst (tryParseDutchOrder toy_sdk (Some ''0xcustom'') ''0xC'' ''0xsig'' 1 None)
       = Inr (DutchV1Order (''0xCuStOm'', 7, 7) ''0xsig'' 1 None)
   \<and> order_orderType (DutchV1Order (''0xCuStOm'', 7, 7) ''0xsig'' 1 None) = Dutch"
proof -
  have a: "tryParseDutchOrder_try toy_sdk ''0xC'' ''0xsig'' 1 None
      = Inl (SdkError ''generic decode failed'')"
    by (simp add: tryParseDutchOrder_try_def toy_sdk_def)
  have b: "fst (tryParseDutchOrder toy_sdk (Some ''0xcustom'') ''0xC'' ''0xsig'' 1 None)
      = Inr (DutchV1Order (''0xCuStOm'', 7, 7) ''0xsig'' 1 None)"
    by (simp add: parser_defs toy_sdk_def toLowerCase_custom toLowerCase_lower)
  have c: "uniswapXParser_getOrderType toy_sdk (''0xCuStOm'', 7, 7) = Inr Limit"
    by (simp add: toy_sdk_def)
  show ?thesis using fallback_success_is_DutchV1 [OF a b] b c by simp
qed

end
